theory Spec2Isabelle
  imports Complex_Main
begin

section \<open>JavaScript values seen by the Generator page\<close>

text \<open>
  The values that \<^verbatim>\<open>response.data\<close>, \<^verbatim>\<open>generatedImage\<close> and \<^verbatim>\<open>error\<close> can hold: what
  axios hands over after parsing a JSON body (or the raw text when the body is not JSON),
  plus \<^verbatim>\<open>undefined\<close> and \<^verbatim>\<open>null\<close>. An object is the association list of its own properties,
  read with \<open>map_of\<close>. A number is kept as a rational: the program only ever tests whether
  it is zero.
\<close>

datatype jsval =
    JUndefined
  | JNull
  | JBool bool
  | JNum rat
  | JStr string
  | JArr "jsval list"
  | JObj "(string \<times> jsval) list"

text \<open>JavaScript's ToBoolean, as used by \<^verbatim>\<open>if\<close>, \<^verbatim>\<open>!\<close>, \<^verbatim>\<open>&&\<close> and \<^verbatim>\<open>||\<close>.\<close>

fun truthy :: "jsval \<Rightarrow> bool" where
  "truthy JUndefined = False"
| "truthy JNull = False"
| "truthy (JBool b) = b"
| "truthy (JNum n) = (n \<noteq> 0)"
| "truthy (JStr s) = (s \<noteq> [])"
| "truthy (JArr xs) = True"
| "truthy (JObj fs) = True"

fun nullish :: "jsval \<Rightarrow> bool" where
  "nullish JUndefined = True"
| "nullish JNull = True"
| "nullish v = False"

text \<open>\<^verbatim>\<open>a && b\<close> and \<^verbatim>\<open>a || b\<close>: the value of one of the operands, chosen by truthiness.\<close>

definition js_and :: "jsval \<Rightarrow> jsval \<Rightarrow> jsval" where
  "js_and a b = (if truthy a then b else a)"

definition js_or :: "jsval \<Rightarrow> jsval \<Rightarrow> jsval" where
  "js_or a b = (if truthy a then a else b)"

text \<open>
  \<^verbatim>\<open>v.k\<close> for the two keys the page reads (\<^verbatim>\<open>image_base64\<close>, \<^verbatim>\<open>detail\<close>): the own property
  of an object, \<^verbatim>\<open>undefined\<close> when the object has none or when \<open>v\<close> is a string, number,
  boolean or array. On \<^verbatim>\<open>null\<close> and \<^verbatim>\<open>undefined\<close> a plain member access throws; both places
  that read a property guard against them (\<^verbatim>\<open>response.data && ...\<close>, \<^verbatim>\<open>?.\<close>), so the
  function is only ever applied to other values.
\<close>

fun own_prop :: "jsval \<Rightarrow> string \<Rightarrow> jsval" where
  "own_prop (JObj fs) k = (case map_of fs k of Some v \<Rightarrow> v | None \<Rightarrow> JUndefined)"
| "own_prop v k = JUndefined"

text \<open>\<^verbatim>\<open>v?.k\<close>: \<^verbatim>\<open>undefined\<close> when \<open>v\<close> is \<^verbatim>\<open>null\<close> or \<^verbatim>\<open>undefined\<close>.\<close>

definition opt_prop :: "jsval \<Rightarrow> string \<Rightarrow> jsval" where
  "opt_prop v k = (if nullish v then JUndefined else own_prop v k)"

section \<open>The request and its outcome\<close>

text \<open>
  The axios response object, of which the page reads \<^verbatim>\<open>data\<close> only, and the value caught
  by \<^verbatim>\<open>catch (err)\<close>: an axios error (with a \<^verbatim>\<open>response\<close> when the backend answered with a
  failure status, without one when the transport failed) or the \<^verbatim>\<open>Error\<close> the page throws
  itself. The promise of \<^verbatim>\<open>axios.post\<close> either resolves with a response (success status)
  or rejects with such an error.
\<close>

record response =
  data :: jsval

record js_error =
  response :: "response option"
  message :: string

datatype outcome = Resolved response | Rejected js_error

record request =
  req_method :: string
  req_url :: string
  req_body :: jsval

text \<open>
  \<^verbatim>\<open>const BACKEND_URL = process.env.REACT_APP_BACKEND_URL; const API = `${BACKEND_URL}/api`;\<close>
  The environment value is a parameter: \<open>None\<close> when the variable is not set, which the
  template literal prints as \<^verbatim>\<open>undefined\<close>.
\<close>

definition API :: "string option \<Rightarrow> string" where
  "API BACKEND_URL = (case BACKEND_URL of None \<Rightarrow> ''undefined'' | Some u \<Rightarrow> u) @ ''/api''"

definition new_Error :: "string \<Rightarrow> js_error" where
  "new_Error msg = \<lparr>response = None, message = msg\<rparr>"

section \<open>State of the Generator page\<close>

text \<open>
  The four \<^verbatim>\<open>useState\<close> cells of \<^verbatim>\<open>GeneratorPage\<close>, followed by the part of the browser the
  page acts on: a clock in milliseconds and the pending \<^verbatim>\<open>setTimeout\<close> callbacks (due
  time and the text each will pass to \<^verbatim>\<open>setLoadingMessage\<close>), the requests sent and the
  number of them not yet settled, the lines written by \<^verbatim>\<open>console.error\<close>, and the links
  clicked by \<^verbatim>\<open>downloadImage\<close> (their \<^verbatim>\<open>href\<close> and \<^verbatim>\<open>download\<close> attributes).
\<close>

record state =
  loading :: bool
  generatedImage :: jsval
  error :: jsval
  loadingMessage :: string
  now :: nat
  timers :: "(nat \<times> string) list"
  sent :: "request list"
  pending :: nat
  console :: "(string \<times> js_error) list"
  saved :: "(jsval \<times> string) list"

definition initial_state :: state where
  "initial_state =
     \<lparr>loading = False, generatedImage = JNull, error = JNull, loadingMessage = [],
      now = 0, timers = [], sent = [], pending = 0, console = [], saved = []\<rparr>"

section \<open>generateInfographic\<close>

text \<open>
  The synchronous part, up to the \<^verbatim>\<open>await\<close>: four state setters, three \<^verbatim>\<open>setTimeout\<close>
  calls and the \<^verbatim>\<open>axios.post\<close> with a URL and nothing else.
\<close>

definition generateInfographic :: "string option \<Rightarrow> state \<Rightarrow> state" where
  "generateInfographic BACKEND_URL s =
     s\<lparr>loading := True,
       error := JNull,
       generatedImage := JNull,
       loadingMessage := ''Preparing your infographic...'',
       timers := timers s @
         [(now s + 2000, ''Analyzing data and structure...''),
          (now s + 5000, ''Creating visual design with Visa blue theme...''),
          (now s + 10000, ''Finalizing your infographic...'')],
       sent := sent s @
         [\<lparr>req_method = ''POST'',
           req_url = API BACKEND_URL @ ''/generate-infographic'',
           req_body = JUndefined\<rparr>],
       pending := pending s + 1\<rparr>"

text \<open>
  \<^verbatim>\<open>err.response?.data?.detail || err.message || "Failed to generate infographic. ..."\<close>
\<close>

definition error_detail :: "js_error \<Rightarrow> jsval" where
  "error_detail err =
     (case response err of
        None \<Rightarrow> JUndefined
      | Some r \<Rightarrow> opt_prop (data r) ''detail'')"

definition error_text :: "js_error \<Rightarrow> jsval" where
  "error_text err =
     js_or (js_or (error_detail err) (JStr (message err)))
       (JStr ''Failed to generate infographic. Please try again.'')"

text \<open>The \<^verbatim>\<open>catch\<close> block.\<close>

definition catch_block :: "js_error \<Rightarrow> state \<Rightarrow> state" where
  "catch_block err s =
     s\<lparr>console := console s @ [(''Error generating infographic:'', err)],
       error := error_text err,
       loadingMessage := []\<rparr>"

text \<open>
  The rest of the function, run when the awaited promise settles: the \<^verbatim>\<open>if\<close> of the
  \<^verbatim>\<open>try\<close> block (whose \<^verbatim>\<open>else\<close> throws into the \<^verbatim>\<open>catch\<close>), the \<^verbatim>\<open>catch\<close> block for a
  rejected promise, then \<^verbatim>\<open>finally\<close>. The setters run one after the other with no event in
  between, so the continuation is one transition.
\<close>

definition on_settled :: "outcome \<Rightarrow> state \<Rightarrow> state" where
  "on_settled out s =
     (let s' =
        (case out of
           Resolved r \<Rightarrow>
             (if truthy (js_and (data r) (own_prop (data r) ''image_base64''))
              then s\<lparr>generatedImage := own_prop (data r) ''image_base64'',
                     loadingMessage := []\<rparr>
              else catch_block (new_Error ''No image data received'') s)
         | Rejected err \<Rightarrow> catch_block err s)
      in s'\<lparr>loading := False\<rparr>)"

section \<open>downloadImage\<close>

text \<open>
  Returns at once when \<^verbatim>\<open>generatedImage\<close> is falsy. Otherwise a link with \<^verbatim>\<open>href\<close> the held
  image and \<^verbatim>\<open>download\<close> the fixed name is appended to the document body, clicked and
  removed again; the click is what remains.
\<close>

definition downloadImage :: "state \<Rightarrow> state" where
  "downloadImage s =
     (if \<not> truthy (generatedImage s) then s
      else s\<lparr>saved := saved s @ [(generatedImage s, ''visa-wwc-infographic.png'')]\<rparr>)"

section \<open>What the page renders\<close>

text \<open>
  What React makes of a value placed as a child of an element, as the error is in
  \<^verbatim>\<open><p>{error}</p>\<close>: \<^verbatim>\<open>undefined\<close>, \<^verbatim>\<open>null\<close>, booleans and the empty string give nothing, a
  string or a number gives one text node, an array gives the nodes of its elements in
  order, and an object is refused (React throws \<^verbatim>\<open>Objects are not valid as a React child\<close>),
  also as an element of an array. \<open>None\<close> is the throw.
\<close>

datatype node = TextNode string | NumberNode rat

fun all_some :: "'a list option list \<Rightarrow> 'a list option" where
  "all_some [] = Some []"
| "all_some (None # rest) = None"
| "all_some (Some ns # rest) =
     (case all_some rest of None \<Rightarrow> None | Some ms \<Rightarrow> Some (ns @ ms))"

fun child_nodes :: "jsval \<Rightarrow> node list option" where
  "child_nodes JUndefined = Some []"
| "child_nodes JNull = Some []"
| "child_nodes (JBool b) = Some []"
| "child_nodes (JNum n) = Some [NumberNode n]"
| "child_nodes (JStr s) = Some (if s = [] then [] else [TextNode s])"
| "child_nodes (JArr xs) = all_some (map child_nodes xs)"
| "child_nodes (JObj fs) = None"

text \<open>
  The conditional parts of the JSX returned by \<^verbatim>\<open>GeneratorPage\<close>: the generate button
  (its \<^verbatim>\<open>disabled\<close> attribute and its label), the loading container (its text), the error
  container (the error placed in its paragraph, with the retry button), the result
  container (the image shown, with the download and regenerate buttons) and the
  placeholder.

  The error container is built when \<^verbatim>\<open>error\<close> is truthy, and its paragraph has the error as
  child. When React refuses that child the render throws; the page has no error boundary,
  so React unmounts it and nothing is shown any more: no container and no button.
\<close>

record view =
  generate_button :: "(bool \<times> string) option"
  loading_container :: "string option"
  error_container :: "jsval option"
  result_container :: "jsval option"
  placeholder_container :: bool

definition blank_view :: view where
  "blank_view =
     \<lparr>generate_button = None, loading_container = None, error_container = None,
      result_container = None, placeholder_container = False\<rparr>"

definition render :: "state \<Rightarrow> view" where
  "render s =
     (if truthy (error s) \<and> child_nodes (error s) = None then blank_view
      else
       \<lparr>generate_button =
          (if \<not> truthy (generatedImage s)
           then Some (loading s, if loading s then ''Generating...'' else ''Generate Infographic'')
           else None),
        loading_container = (if loading s then Some (loadingMessage s) else None),
        error_container = (if truthy (error s) then Some (error s) else None),
        result_container =
          (if truthy (generatedImage s) \<and> \<not> loading s then Some (generatedImage s) else None),
        placeholder_container =
          (\<not> loading s \<and> \<not> truthy (error s) \<and> \<not> truthy (generatedImage s))\<rparr>)"

text \<open>
  The text nodes of the paragraph of the error container: \<open>None\<close> when the container is
  not on the page.
\<close>

definition error_shown :: "state \<Rightarrow> node list option" where
  "error_shown s =
     (case error_container (render s) of
        None \<Rightarrow> None
      | Some e \<Rightarrow> child_nodes e)"

section \<open>Events\<close>

text \<open>
  What can happen to the page, one event per browser task: a click on one of its four
  buttons, time passing, and a pending request settling. React has rendered the page from
  the current cells before the task starts, so a click reaches its handler only when the
  button is on the rendered page and not disabled. This is how the clicks of a user
  arrive. Clicks that a script dispatches within one task are \<open>clicks_in_one_task\<close>
  below.
\<close>

datatype event =
    ClickGenerate
  | ClickRetry
  | ClickRegenerate
  | ClickDownload
  | Elapse nat
  | Settle outcome

text \<open>
  Time passing by \<open>d\<close> milliseconds: the callbacks due by then run in the order of their
  due times (those of equal due time in the order they were scheduled), each setting the
  loading message, and leave the queue.
\<close>

definition elapse :: "nat \<Rightarrow> state \<Rightarrow> state" where
  "elapse d s =
     (let t = now s + d;
          due = sort_key fst (filter (\<lambda>c. fst c \<le> t) (timers s))
      in s\<lparr>now := t,
           timers := filter (\<lambda>c. \<not> fst c \<le> t) (timers s),
           loadingMessage := foldl (\<lambda>m c. snd c) (loadingMessage s) due\<rparr>)"

fun step :: "string option \<Rightarrow> event \<Rightarrow> state \<Rightarrow> state" where
  "step env ClickGenerate s =
     (case generate_button (render s) of
        Some (disabled, label) \<Rightarrow> (if disabled then s else generateInfographic env s)
      | None \<Rightarrow> s)"
| "step env ClickRetry s =
     (case error_container (render s) of
        Some e \<Rightarrow> generateInfographic env s
      | None \<Rightarrow> s)"
| "step env ClickRegenerate s =
     (case result_container (render s) of
        Some img \<Rightarrow> generateInfographic env s
      | None \<Rightarrow> s)"
| "step env ClickDownload s =
     (case result_container (render s) of
        Some img \<Rightarrow> downloadImage s
      | None \<Rightarrow> s)"
| "step env (Elapse d) s = elapse d s"
| "step env (Settle out) s =
     (if pending s = 0 then s else on_settled out (s\<lparr>pending := pending s - 1\<rparr>))"

fun run :: "string option \<Rightarrow> event list \<Rightarrow> state \<Rightarrow> state" where
  "run env [] s = s"
| "run env (e # es) s = run env es (step env e s)"

text \<open>
  \<open>n\<close> clicks on one button dispatched within a single task, as a script calling
  \<^verbatim>\<open>click()\<close> repeatedly does. The page is not rendered again inside the task: the page as
  rendered at its start decides whether the button takes clicks, and the handler then
  runs \<open>n\<close> times. generateInfographic has no guard of its own, so each run sends a
  request.
\<close>

fun clicks_in_one_task :: "string option \<Rightarrow> event \<Rightarrow> nat \<Rightarrow> state \<Rightarrow> state" where
  "clicks_in_one_task env ClickGenerate n s =
     (case generate_button (render s) of
        Some (disabled, label) \<Rightarrow> (if disabled then s else (generateInfographic env ^^ n) s)
      | None \<Rightarrow> s)"
| "clicks_in_one_task env ClickRetry n s =
     (case error_container (render s) of
        Some e \<Rightarrow> (generateInfographic env ^^ n) s
      | None \<Rightarrow> s)"
| "clicks_in_one_task env ClickRegenerate n s =
     (case result_container (render s) of
        Some img \<Rightarrow> (generateInfographic env ^^ n) s
      | None \<Rightarrow> s)"
| "clicks_in_one_task env ClickDownload n s =
     (case result_container (render s) of
        Some img \<Rightarrow> (downloadImage ^^ n) s
      | None \<Rightarrow> s)"
| "clicks_in_one_task env (Elapse d) n s = s"
| "clicks_in_one_task env (Settle out) n s = s"

section \<open>Predicates on states and events\<close>

text \<open>
  The lifecycle invariant. While loading, no image and no error are held and exactly one
  request is awaiting its answer; otherwise no request is pending and an image and an
  error are not both held.
\<close>

definition lifecycle_inv :: "state \<Rightarrow> bool" where
  "lifecycle_inv s =
     (if loading s
      then generatedImage s = JNull \<and> error s = JNull \<and> pending s = 1
      else pending s = 0 \<and> \<not> (truthy (generatedImage s) \<and> truthy (error s)))"


fun is_settle :: "event \<Rightarrow> bool" where
  "is_settle (Settle out) = True"
| "is_settle e = False"

fun is_elapse :: "event \<Rightarrow> bool" where
  "is_elapse (Elapse d) = True"
| "is_elapse e = False"

text \<open>
  Two states used as examples: the page after a generation that returned the image
  \<^verbatim>\<open>"X"\<close>, and after one that failed with a network error.
\<close>

definition example_result_state :: state where
  "example_result_state =
     run None
       [ClickGenerate, Settle (Resolved \<lparr>data = JObj [(''image_base64'', JStr ''X'')]\<rparr>)]
       initial_state"

definition example_error_state :: state where
  "example_error_state =
     run None
       [ClickGenerate, Settle (Rejected \<lparr>response = None, message = ''Network Error''\<rparr>)]
       initial_state"

section \<open>Basic facts\<close>

lemmas model_defs = initial_state_def generateInfographic_def on_settled_def catch_block_def
  error_text_def error_detail_def js_or_def js_and_def opt_prop_def new_Error_def render_def
  blank_view_def error_shown_def
  elapse_def downloadImage_def API_def example_result_state_def example_error_state_def Let_def

lemma generate_loading [simp]: "loading (generateInfographic env s) = True"
  and generate_image [simp]: "generatedImage (generateInfographic env s) = JNull"
  and generate_error [simp]: "error (generateInfographic env s) = JNull"
  and generate_message [simp]:
    "loadingMessage (generateInfographic env s) = ''Preparing your infographic...''"
  and generate_pending [simp]: "pending (generateInfographic env s) = pending s + 1"
  by (simp_all add: generateInfographic_def)

lemma settled_loading [simp]: "loading (on_settled out s) = False"
  and settled_message [simp]: "loadingMessage (on_settled out s) = []"
  and settled_pending [simp]: "pending (on_settled out s) = pending s"
  and settled_timers [simp]: "timers (on_settled out s) = timers s"
  and settled_now [simp]: "now (on_settled out s) = now s"
  and settled_sent [simp]: "sent (on_settled out s) = sent s"
  by (cases out; simp add: on_settled_def catch_block_def Let_def)+

lemma settled_image:
  "generatedImage (on_settled out s) = generatedImage s \<or> error (on_settled out s) = error s"
  by (cases out) (simp_all add: on_settled_def catch_block_def Let_def)


lemma error_text_truthy: "truthy (error_text err)"
  by (simp add: error_text_def js_or_def)


lemma elapse_fields [simp]:
  "loading (elapse d s) = loading s"
  "generatedImage (elapse d s) = generatedImage s"
  "error (elapse d s) = error s"
  "pending (elapse d s) = pending s"
  by (simp_all add: elapse_def Let_def)

lemma download_fields [simp]:
  "loading (downloadImage s) = loading s"
  "generatedImage (downloadImage s) = generatedImage s"
  "error (downloadImage s) = error s"
  "pending (downloadImage s) = pending s"
  "timers (downloadImage s) = timers s"
  "sent (downloadImage s) = sent s"
  by (simp_all add: downloadImage_def)

subsection \<open>The lifecycle invariant holds in every reachable state\<close>

lemma inv_initial: "lifecycle_inv initial_state"
  by (simp add: lifecycle_inv_def initial_state_def)

lemma inv_generate:
  "\<not> loading s \<Longrightarrow> lifecycle_inv s \<Longrightarrow> lifecycle_inv (generateInfographic env s)"
  by (simp add: lifecycle_inv_def)

lemma inv_settle: "lifecycle_inv s \<Longrightarrow> lifecycle_inv (step env (Settle out) s)"
  using settled_image [of out "s\<lparr>pending := pending s - 1\<rparr>"]
  by (auto simp: lifecycle_inv_def split: if_splits)

lemma inv_step: "lifecycle_inv s \<Longrightarrow> lifecycle_inv (step env e s)"
proof (cases e)
  case (Settle out)
  assume "lifecycle_inv s"
  then show ?thesis unfolding Settle by (rule inv_settle)
next
  case ClickGenerate
  assume "lifecycle_inv s"
  then show ?thesis unfolding ClickGenerate
    by (auto simp: render_def blank_view_def inv_generate split: if_splits)
next
  case ClickRetry
  assume i: "lifecycle_inv s"
  show ?thesis
  proof (cases "loading s")
    case True
    with i show ?thesis unfolding ClickRetry by (simp add: render_def blank_view_def lifecycle_inv_def)
  next
    case False
    with i show ?thesis unfolding ClickRetry by (simp add: render_def blank_view_def inv_generate)
  qed
next
  case ClickRegenerate
  assume "lifecycle_inv s"
  then show ?thesis unfolding ClickRegenerate
    by (auto simp: render_def blank_view_def inv_generate split: if_splits)
next
  case ClickDownload
  assume "lifecycle_inv s"
  then show ?thesis unfolding ClickDownload
    by (auto simp: render_def blank_view_def lifecycle_inv_def split: if_splits)
next
  case (Elapse d)
  assume "lifecycle_inv s"
  then show ?thesis unfolding Elapse by (simp add: lifecycle_inv_def)
qed

lemma inv_run: "lifecycle_inv s \<Longrightarrow> lifecycle_inv (run env es s)"
  by (induction es arbitrary: s) (simp_all add: inv_step)

lemma inv_reachable: "lifecycle_inv (run env es initial_state)"
  by (rule inv_run [OF inv_initial])

subsection \<open>Between the start of a request and its answer\<close>




lemma timers_kept:
  "\<not> is_elapse e \<Longrightarrow> take (length (timers s)) (timers (step env e s)) = timers s"
  by (cases e) (auto simp: generateInfographic_def split: option.splits)

subsection \<open>Clicks within one task, and an error React cannot display\<close>

lemma same_task_single_click:
  "\<not> is_elapse e \<Longrightarrow> \<not> is_settle e \<Longrightarrow> clicks_in_one_task env e (Suc 0) s = step env e s"
  by (cases e) (simp_all split: option.splits)

lemma object_detail_unmounts_page:
  "render (on_settled
      (Rejected \<lparr>response = Some \<lparr>data = JObj [(''detail'', JObj [(''code'', JNum 42)])]\<rparr>,
                 message = m\<rparr>)
      (generateInfographic env s)) = blank_view"
  by (simp add: on_settled_def catch_block_def error_text_def error_detail_def js_or_def
      opt_prop_def render_def)

section \<open>Entering Loading\<close>

text \<open>
  C1, as stated, has an image and an error never held together in any reachable state.
  generateInfographic does not check whether a request is already on its way. Two clicks
  on the generate button dispatched within one task start two requests; when the first is
  answered with an image and the second fails, the page holds the image and the error.
\<close>

theorem overlapping_requests_hold_both:
  "generatedImage
     (step None (Settle (Rejected \<lparr>response = None, message = ''Network Error''\<rparr>))
       (step None (Settle (Resolved \<lparr>data = JObj [(''image_base64'', JStr ''X'')]\<rparr>))
         (clicks_in_one_task None ClickGenerate 2 initial_state))) = JStr ''X''
   \<and> error
     (step None (Settle (Rejected \<lparr>response = None, message = ''Network Error''\<rparr>))
       (step None (Settle (Resolved \<lparr>data = JObj [(''image_base64'', JStr ''X'')]\<rparr>))
         (clicks_in_one_task None ClickGenerate 2 initial_state))) = JStr ''Network Error''
   \<and> truthy (JStr ''X'') \<and> truthy (JStr ''Network Error'')"
  by (simp add: model_defs numeral_2_eq_2)

text \<open>
  C1, amended. generateInfographic enters Loading with the image and the error both
  cleared, whatever the state it is called in. As a consequence, in every state the page
  reaches from its initial state through events handled one per task (clicks arriving
  after the page has been rendered again, as those of a user do, time passing, requests
  settling), an image and an error are never held together.
\<close>

theorem generate_clears_and_never_both:
  "loading (generateInfographic env s)
   \<and> generatedImage (generateInfographic env s) = JNull
   \<and> error (generateInfographic env s) = JNull
   \<and> \<not> (truthy (generatedImage (run env es initial_state))
        \<and> truthy (error (run env es initial_state)))"
  using inv_reachable [of env es]
  by (auto simp: lifecycle_inv_def split: if_splits)

section \<open>A successful response\<close>

text \<open>
  C2. When the request resolves with a body that is an object whose \<^verbatim>\<open>image_base64\<close> is
  the non-empty string \<open>X\<close>, the page ends up holding exactly \<open>X\<close> as the image, with no
  error and not loading, and renders the result container with \<open>X\<close> and nothing else.
\<close>

theorem success_holds_exactly_image:
  assumes "data r = JObj fs" and "map_of fs ''image_base64'' = Some (JStr X)" and "X \<noteq> []"
  shows "generatedImage (on_settled (Resolved r) (generateInfographic env s)) = JStr X
       \<and> error (on_settled (Resolved r) (generateInfographic env s)) = JNull
       \<and> \<not> loading (on_settled (Resolved r) (generateInfographic env s))
       \<and> render (on_settled (Resolved r) (generateInfographic env s)) =
           \<lparr>generate_button = None, loading_container = None, error_container = None,
            result_container = Some (JStr X), placeholder_container = False\<rparr>"
  using assms by (simp add: on_settled_def js_and_def render_def blank_view_def generateInfographic_def)

theorem success_holds_exactly_image_witness:
  "generatedImage (on_settled (Resolved \<lparr>data = JObj [(''image_base64'', JStr ''X'')]\<rparr>)
      (generateInfographic None initial_state)) = JStr ''X''"
  using success_holds_exactly_image [of "\<lparr>data = JObj [(''image_base64'', JStr ''X'')]\<rparr>"
      "[(''image_base64'', JStr ''X'')]" "''X''" None initial_state]
  by simp

section \<open>A failed request\<close>




section \<open>A successful response without an image\<close>

text \<open>
  C4. When the request resolves with a body that is \<^verbatim>\<open>null\<close> or \<^verbatim>\<open>undefined\<close>, or that has no
  \<^verbatim>\<open>image_base64\<close> (an object without the field, or an empty or non-object body), the page
  ends up with the error \<^verbatim>\<open>No image data received\<close>, holds no image and renders the error
  container, not the result container.
\<close>

theorem missing_image_gives_error:
  assumes "nullish (data r) \<or> own_prop (data r) ''image_base64'' = JUndefined"
  shows "error (on_settled (Resolved r) (generateInfographic env s)) = JStr ''No image data received''
       \<and> generatedImage (on_settled (Resolved r) (generateInfographic env s)) = JNull
       \<and> \<not> loading (on_settled (Resolved r) (generateInfographic env s))
       \<and> result_container (render (on_settled (Resolved r) (generateInfographic env s))) = None
       \<and> error_container (render (on_settled (Resolved r) (generateInfographic env s)))
           = Some (JStr ''No image data received'')"
proof -
  have "\<not> truthy (js_and (data r) (own_prop (data r) ''image_base64''))"
    using assms by (cases "data r") (auto simp: js_and_def)
  then show ?thesis
    by (simp add: on_settled_def catch_block_def error_text_def error_detail_def js_or_def
        new_Error_def render_def blank_view_def)
qed

theorem missing_image_gives_error_witness:
  "error (on_settled (Resolved \<lparr>data = JObj [(''status'', JStr ''ok'')]\<rparr>)
      (generateInfographic None initial_state)) = JStr ''No image data received''
   \<and> error (on_settled (Resolved \<lparr>data = JStr []\<rparr>)
      (generateInfographic None initial_state)) = JStr ''No image data received''"
  using missing_image_gives_error [of "\<lparr>data = JObj [(''status'', JStr ''ok'')]\<rparr>" None initial_state]
    missing_image_gives_error [of "\<lparr>data = JStr []\<rparr>" None initial_state]
  by simp

section \<open>Terminal outcomes\<close>

text \<open>
  C5. Whatever the outcome of the request (a usable image, a success response without
  one, a backend error, a transport error), once the continuation of generateInfographic
  has run, the loading flag is false and the progress message is the empty string.
\<close>

theorem terminal_clears_loading_and_message:
  "loading (on_settled out s) = False \<and> loadingMessage (on_settled out s) = []"
  by (cases out) (simp_all add: on_settled_def catch_block_def Let_def)

section \<open>Progress messages\<close>

text \<open>
  C6. generateInfographic sets the progress message to the preparing text and adds exactly
  three callbacks to the timer queue, due 2000, 5000 and 10000 milliseconds after the call.
  The request settling leaves the queue as it is, and so does every event other than time
  passing (a click may only add callbacks behind the ones already queued). So the callbacks
  still run after an early answer: starting with an empty queue, \<open>d\<close> milliseconds after a
  call whose request has already settled the progress message is the text of the last
  callback due by then.
\<close>

theorem progress_timers_scheduled_and_kept:
  "loadingMessage (generateInfographic env s) = ''Preparing your infographic...''
   \<and> timers (generateInfographic env s) =
       timers s @ [(now s + 2000, ''Analyzing data and structure...''),
                   (now s + 5000, ''Creating visual design with Visa blue theme...''),
                   (now s + 10000, ''Finalizing your infographic...'')]
   \<and> timers (on_settled out (generateInfographic env s)) = timers (generateInfographic env s)
   \<and> (\<not> is_elapse e \<longrightarrow> take (length (timers s)) (timers (step env e s)) = timers s)
   \<and> (timers s = [] \<longrightarrow>
        loadingMessage (elapse d (on_settled out (generateInfographic env s))) =
          (if d < 2000 then []
           else if d < 5000 then ''Analyzing data and structure...''
           else if d < 10000 then ''Creating visual design with Visa blue theme...''
           else ''Finalizing your infographic...''))"
proof -
  have fire: "loadingMessage (elapse d (on_settled out (generateInfographic env s))) =
          (if d < 2000 then []
           else if d < 5000 then ''Analyzing data and structure...''
           else if d < 10000 then ''Creating visual design with Visa blue theme...''
           else ''Finalizing your infographic...'')" if "timers s = []"
  proof -
    have n: "now (generateInfographic env s) = now s"
      by (simp add: generateInfographic_def)
    have q: "timers (generateInfographic env s) =
        [(now s + 2000, ''Analyzing data and structure...''),
         (now s + 5000, ''Creating visual design with Visa blue theme...''),
         (now s + 10000, ''Finalizing your infographic...'')]"
      using that by (simp add: generateInfographic_def)
    show ?thesis
      by (simp add: elapse_def Let_def n q)
  qed
  show ?thesis
    using fire timers_kept [of e s env] by (simp add: generateInfographic_def)
qed

theorem progress_timers_scheduled_and_kept_witness:
  "loadingMessage (elapse 2000 (on_settled
      (Resolved \<lparr>data = JObj [(''image_base64'', JStr ''X'')]\<rparr>)
      (generateInfographic None initial_state))) = ''Analyzing data and structure...''
   \<and> timers (step None (Settle (Rejected \<lparr>response = None, message = ''Network Error''\<rparr>))
        (generateInfographic None initial_state))
     = timers (generateInfographic None initial_state)"
  using progress_timers_scheduled_and_kept
    [where s = initial_state and env = None and d = 2000
       and out = "Resolved \<lparr>data = JObj [(''image_base64'', JStr ''X'')]\<rparr>"
       and e = ClickDownload]
    progress_timers_scheduled_and_kept
    [where s = "generateInfographic None initial_state" and env = None
       and e = "Settle (Rejected \<lparr>response = None, message = ''Network Error''\<rparr>)"]
  by (simp add: initial_state_def generateInfographic_def)

section \<open>Retry and regenerate\<close>

text \<open>
  C7. A click on the retry button (rendered in the error container), on the regenerate
  button (rendered in the result container) and on the enabled generate button all run
  the one function generateInfographic on the current state: it enters Loading and sends
  one more request, always the same POST to the generate-infographic URL with no body.
\<close>

theorem retry_regenerate_are_generate:
  "(error_container (render s) \<noteq> None \<longrightarrow> step env ClickRetry s = generateInfographic env s)
   \<and> (result_container (render s) \<noteq> None \<longrightarrow>
        step env ClickRegenerate s = generateInfographic env s)
   \<and> (generate_button (render s) = Some (False, l) \<longrightarrow>
        step env ClickGenerate s = generateInfographic env s)
   \<and> loading (generateInfographic env s)
   \<and> sent (generateInfographic env s) =
       sent s @ [\<lparr>req_method = ''POST'', req_url = API env @ ''/generate-infographic'',
                  req_body = JUndefined\<rparr>]"
  by (auto simp: generateInfographic_def)

theorem retry_regenerate_are_generate_witness:
  "step None ClickRetry example_error_state = generateInfographic None example_error_state
   \<and> step None ClickRegenerate example_result_state
       = generateInfographic None example_result_state
   \<and> step None ClickGenerate initial_state = generateInfographic None initial_state"
proof -
  have e: "error_container (render example_error_state) \<noteq> None"
    and r: "result_container (render example_result_state) \<noteq> None"
    and g: "generate_button (render initial_state) = Some (False, ''Generate Infographic'')"
    by (simp_all add: model_defs)
  from e r g
    retry_regenerate_are_generate [where s = example_error_state and env = None]
    retry_regenerate_are_generate [where s = example_result_state and env = None]
    retry_regenerate_are_generate
      [where s = initial_state and env = None and l = "''Generate Infographic''"]
  show ?thesis by blast
qed

section \<open>Download\<close>

text \<open>
  C8. A click on the download button does nothing when the result container is not
  rendered, and downloadImage itself returns the state unchanged when no image is held.
  When the result container is rendered, the click records exactly one saved link, whose
  target is the held image and whose file name is \<^verbatim>\<open>visa-wwc-infographic.png\<close>, and changes
  nothing else: no request is sent or pending in addition, and no error is set.
\<close>

theorem download_saves_held_image:
  "(result_container (render s) = None \<longrightarrow> step env ClickDownload s = s)
   \<and> (\<not> truthy (generatedImage s) \<longrightarrow> downloadImage s = s)
   \<and> (result_container (render s) = Some img \<longrightarrow>
        step env ClickDownload s = s\<lparr>saved := saved s @ [(img, ''visa-wwc-infographic.png'')]\<rparr>
        \<and> img = generatedImage s)
   \<and> sent (step env ClickDownload s) = sent s
   \<and> pending (step env ClickDownload s) = pending s
   \<and> error (step env ClickDownload s) = error s"
  by (auto simp: render_def blank_view_def downloadImage_def split: if_splits option.splits)

theorem download_saves_held_image_witness:
  "step None ClickDownload example_result_state =
     example_result_state\<lparr>saved := [(JStr ''X'', ''visa-wwc-infographic.png'')]\<rparr>
   \<and> step None ClickDownload example_error_state = example_error_state
   \<and> downloadImage initial_state = initial_state"
proof -
  have r: "result_container (render example_result_state) = Some (JStr ''X'')"
    and s: "saved example_result_state = []"
    and e: "result_container (render example_error_state) = None"
    and i: "\<not> truthy (generatedImage initial_state)"
    by (simp_all add: model_defs)
  from r s e i
    download_saves_held_image
      [where s = example_result_state and env = None and img = "JStr ''X''"]
    download_saves_held_image [where s = example_error_state and env = None]
    download_saves_held_image [where s = initial_state]
  show ?thesis by simp
qed

section \<open>The generate button while loading\<close>

text \<open>
  C9, as stated, has the generate button not rendered while loading. Right after the
  first click the page is loading and the button is rendered, disabled, with the label
  \<^verbatim>\<open>Generating...\<close>.
\<close>

theorem generate_button_rendered_while_loading:
  "loading (run None [ClickGenerate] initial_state)
   \<and> generate_button (render (run None [ClickGenerate] initial_state))
       = Some (True, ''Generating...'')"
  by (simp add: model_defs)

text \<open>
  C9, amended. In every reachable state in which the loading flag is true, the generate
  button is rendered disabled (labelled \<^verbatim>\<open>Generating...\<close>) and the retry and regenerate
  buttons are not rendered, so a click on any of the three leaves the state as it is: no
  second invocation starts while one is in flight.
\<close>

theorem generate_button_disabled_while_loading:
  assumes "loading (run env es initial_state)"
  shows "generate_button (render (run env es initial_state)) = Some (True, ''Generating...'')
       \<and> error_container (render (run env es initial_state)) = None
       \<and> result_container (render (run env es initial_state)) = None
       \<and> step env ClickGenerate (run env es initial_state) = run env es initial_state
       \<and> step env ClickRetry (run env es initial_state) = run env es initial_state
       \<and> step env ClickRegenerate (run env es initial_state) = run env es initial_state"
  using assms inv_reachable [of env es] by (simp add: lifecycle_inv_def render_def blank_view_def)

theorem generate_button_disabled_while_loading_witness:
  "loading (run None [ClickGenerate, Elapse 2000] initial_state)
   \<and> step None ClickGenerate (run None [ClickGenerate, Elapse 2000] initial_state)
       = run None [ClickGenerate, Elapse 2000] initial_state"
proof -
  have l: "loading (run None [ClickGenerate, Elapse 2000] initial_state)"
    by (simp add: model_defs)
  from generate_button_disabled_while_loading [OF l] l show ?thesis by blast
qed

section \<open>A failed regeneration\<close>



end
